theory Spec2Isabelle
  imports Main "HOL-Library.Word"
begin

unbundle bit_operations_syntax

section \<open>Python values\<close>

text \<open>
  A Python \<open>str\<close> is a sequence of Unicode code points, so it is modelled as a list of
  naturals (the code points); \<open>lit\<close> turns an ASCII literal into such a string. Uploaded file
  contents are byte lists.
\<close>

type_synonym pystr = "nat list"

type_synonym bytes = "8 word list"

definition lit :: "string \<Rightarrow> pystr" where
  "lit s = map of_char s"

text \<open>The values \<open>json.load\<close> and \<open>request.get_json()\<close> produce (floats are left out:
  no handler computes with numbers). A \<open>dict\<close> keeps its insertion order.\<close>

datatype json =
    JNull
  | JBool bool
  | JInt int
  | JStr pystr
  | JArr "json list"
  | JObj "(pystr \<times> json) list"

datatype exn =
    TypeError
  | AttributeError
  | KeyError
  | JSONDecodeError
  | FileNotFoundError
  | IsADirectoryError

text \<open>What a view function hands back to Flask: \<open>jsonify(body), status\<close>, a file sent as an
  attachment (the path that was opened and its bytes), or an HTTP error raised by the
  framework (\<open>NotFound\<close> is \<open>Abort 404\<close>).\<close>

datatype response =
    Jsonify json nat
  | Send_file pystr bytes
  | Abort nat



definition startswith :: "pystr \<Rightarrow> pystr \<Rightarrow> bool" where
  "startswith s p = (take (length p) s = p)"

definition endswith :: "pystr \<Rightarrow> pystr \<Rightarrow> bool" where
  "endswith s p = (length p \<le> length s \<and> drop (length s - length p) s = p)"

text \<open>\<open>str.isspace\<close> on one code point and \<open>str.strip()\<close>.\<close>

definition isspace :: "nat \<Rightarrow> bool" where
  "isspace c = (c \<in> set [9, 10, 11, 12, 13, 28, 29, 30, 31, 32, 133, 160, 5760,
      8192, 8193, 8194, 8195, 8196, 8197, 8198, 8199, 8200, 8201, 8202,
      8232, 8233, 8239, 8287, 12288])"

definition strip :: "pystr \<Rightarrow> pystr" where
  "strip s = rev (dropWhile isspace (rev (dropWhile isspace s)))"

text \<open>Truth value of a Python object (\<open>not data\<close>).\<close>

fun truthy :: "json \<Rightarrow> bool" where
  "truthy JNull = False"
| "truthy (JBool b) = b"
| "truthy (JInt i) = (i \<noteq> 0)"
| "truthy (JStr s) = (s \<noteq> [])"
| "truthy (JArr xs) = (xs \<noteq> [])"
| "truthy (JObj kvs) = (kvs \<noteq> [])"

fun contains_str :: "pystr \<Rightarrow> pystr \<Rightarrow> bool" where
  "contains_str k [] = (k = [])"
| "contains_str k (c # cs) = (startswith (c # cs) k \<or> contains_str k cs)"

text \<open>\<open>k in data\<close> for a string \<open>k\<close>: key membership in a dict, element membership in a
  list, substring test in a string, \<open>TypeError\<close> for a number, a boolean or \<open>None\<close>.\<close>

fun py_contains :: "pystr \<Rightarrow> json \<Rightarrow> exn + bool" where
  "py_contains k (JObj kvs) = Inr (map_of kvs k \<noteq> None)"
| "py_contains k (JArr xs) = Inr (JStr k \<in> set xs)"
| "py_contains k (JStr s) = Inr (contains_str k s)"
| "py_contains k _ = Inl TypeError"

text \<open>\<open>data[k]\<close> for a string \<open>k\<close>: lookup in a dict (\<open>KeyError\<close> when absent); a list or a
  string wants an integer index, anything else is not subscriptable.\<close>

fun py_getitem :: "json \<Rightarrow> pystr \<Rightarrow> exn + json" where
  "py_getitem (JObj kvs) k = (case map_of kvs k of None \<Rightarrow> Inl KeyError | Some v \<Rightarrow> Inr v)"
| "py_getitem _ k = Inl TypeError"

text \<open>\<open>v.strip()\<close>: only a \<open>str\<close> has the method.\<close>

fun py_strip :: "json \<Rightarrow> exn + pystr" where
  "py_strip (JStr s) = Inr (strip s)"
| "py_strip _ = Inl AttributeError"

text \<open>\<open>texts.insert(0, x)\<close>: only a \<open>list\<close> has the method.\<close>

fun py_insert0 :: "json \<Rightarrow> json \<Rightarrow> exn + json" where
  "py_insert0 (JArr xs) x = Inr (JArr (x # xs))"
| "py_insert0 _ x = Inl AttributeError"

text \<open>\<open>for t in texts\<close>: the elements of a list, the keys of a dict, the characters of a
  string; \<open>TypeError\<close> otherwise.\<close>

fun py_iter :: "json \<Rightarrow> exn + json list" where
  "py_iter (JArr xs) = Inr xs"
| "py_iter (JObj kvs) = Inr (map (\<lambda>kv. JStr (fst kv)) kvs)"
| "py_iter (JStr s) = Inr (map (\<lambda>c. JStr [c]) s)"
| "py_iter _ = Inl TypeError"

section \<open>Paths and the file system\<close>

text \<open>
  The file system is what the operating system answers for a path string: nothing, a
  directory, or a regular file with its bytes. POSIX path conventions (\<open>os.sep = '/'\<close>).
\<close>

datatype node = File bytes | Dir

type_synonym filesystem = "pystr \<Rightarrow> node option"

definition os_path_exists :: "filesystem \<Rightarrow> pystr \<Rightarrow> bool" where
  "os_path_exists fs p = (fs p \<noteq> None)"

text \<open>\<open>os.remove\<close>: deletes a regular file; raises on a directory and on a missing path.\<close>

definition os_remove :: "filesystem \<Rightarrow> pystr \<Rightarrow> exn + filesystem" where
  "os_remove fs p =
     (case fs p of
        None \<Rightarrow> Inl FileNotFoundError
      | Some Dir \<Rightarrow> Inl IsADirectoryError
      | Some (File c) \<Rightarrow> Inr (fs(p := None)))"

text \<open>\<open>os.path.join(a, b)\<close>.\<close>

definition os_path_join :: "pystr \<Rightarrow> pystr \<Rightarrow> pystr" where
  "os_path_join a b =
     (if startswith b (lit ''/'') then b
      else if a = [] \<or> endswith a (lit ''/'') then a @ b
      else a @ lit ''/'' @ b)"

text \<open>\<open>p.rfind(c)\<close> for a one-character \<open>c\<close>: the last index of \<open>c\<close>, or \<open>-1\<close>.\<close>

definition rfind :: "pystr \<Rightarrow> nat \<Rightarrow> int" where
  "rfind p c =
     (if c \<in> set p then int (length p) - 1 - int (length (takeWhile (\<lambda>x. x \<noteq> c) (rev p)))
      else - 1)"

text \<open>\<open>os.path.splitext\<close>: the extension starts at the last dot of the last path component,
  leading dots of that component not counted.\<close>

function splitext_loop :: "pystr \<Rightarrow> int \<Rightarrow> int \<Rightarrow> pystr \<times> pystr" where
  "splitext_loop p filenameIndex dotIndex =
     (if filenameIndex < dotIndex then
        (if take 1 (drop (nat filenameIndex) p) \<noteq> lit ''.''
         then (take (nat dotIndex) p, drop (nat dotIndex) p)
         else splitext_loop p (filenameIndex + 1) dotIndex)
      else (p, []))"
  by pat_completeness auto
termination
  by (relation "measure (\<lambda>(p, filenameIndex, dotIndex). nat (dotIndex - filenameIndex))") auto

declare splitext_loop.simps [simp del]

definition splitext :: "pystr \<Rightarrow> pystr \<times> pystr" where
  "splitext p =
     (let sepIndex = rfind p 47;
          dotIndex = rfind p 46
      in if dotIndex > sepIndex then splitext_loop p (sepIndex + 1) dotIndex else (p, []))"

text \<open>\<open>str.split('/')\<close> and \<open>'/'.join\<close>.\<close>

fun split_sep :: "pystr \<Rightarrow> pystr list" where
  "split_sep [] = [[]]"
| "split_sep (c # cs) =
     (if c = 47 then [] # split_sep cs
      else (case split_sep cs of [] \<Rightarrow> [[c]] | x # xs \<Rightarrow> (c # x) # xs))"




section \<open>Configuration\<close>

text \<open>
  \<open>UPLOAD_FOLDER\<close> and \<open>TEXT_FILE\<close> sit beside the script; the script's directory is the
  parameter \<open>app_dir\<close>.
\<close>

definition UPLOAD_FOLDER :: "pystr \<Rightarrow> pystr" where
  "UPLOAD_FOLDER app_dir = os_path_join app_dir (lit ''uploads'')"

definition MAX_CONTENT_LENGTH :: int where
  "MAX_CONTENT_LENGTH = 5000 * 1024 * 1024"

text \<open>The framework refuses (413) a request whose declared content length is greater than
  the configured \<open>MAX_CONTENT_LENGTH\<close>; everything else reaches the view function.\<close>

definition request_entity_too_large :: "int \<Rightarrow> bool" where
  "request_entity_too_large content_length = (content_length > MAX_CONTENT_LENGTH)"

section \<open>The text store\<close>

text \<open>
  The file \<open>texts.json\<close> is absent, holds a JSON document, or holds something
  \<open>json.load\<close> cannot parse. A document is identified with the value it encodes: the
  codec (\<open>json.load\<close>, \<open>json.dump\<close>) is the library's, and two texts of one value differ
  in layout only. Writing is taken to succeed; failures of the write itself (I/O errors, a
  string the file encoding cannot represent) are outside the model.
\<close>

datatype text_file = Missing | Document json | Malformed

definition load_texts :: "text_file \<Rightarrow> exn + json" where
  "load_texts tf =
     (case tf of
        Missing \<Rightarrow> Inr (JArr [])
      | Document v \<Rightarrow> Inr v
      | Malformed \<Rightarrow> Inl JSONDecodeError)"

definition save_texts :: "json \<Rightarrow> text_file \<Rightarrow> text_file" where
  "save_texts texts tf = Document texts"

section \<open>File routes\<close>







definition msg_file_not_exist :: pystr where
  "msg_file_not_exist = [25991, 20214, 19981, 23384, 22312]"

definition msg_no_content :: pystr where
  "msg_no_content = [27809, 26377, 20869, 23481]"

definition msg_content_empty :: pystr where
  "msg_content_empty = [20869, 23481, 19981, 33021, 20026, 31354]"

definition json_error :: "pystr \<Rightarrow> json" where
  "json_error msg = JObj [(lit ''error'', JStr msg)]"

definition json_success :: json where
  "json_success = JObj [(lit ''success'', JBool True)]"







text \<open>\<open>POST /delete/<filename>\<close>.\<close>

definition delete_file :: "pystr \<Rightarrow> filesystem \<Rightarrow> pystr \<Rightarrow> (exn + response) \<times> filesystem" where
  "delete_file app_dir fs filename =
     (let filepath = os_path_join (UPLOAD_FOLDER app_dir) filename
      in if os_path_exists fs filepath then
           (case os_remove fs filepath of
              Inl e \<Rightarrow> (Inl e, fs)
            | Inr fs' \<Rightarrow> (Inr (Jsonify json_success 200), fs'))
         else (Inr (Jsonify (json_error msg_file_not_exist) 404), fs))"

section \<open>Text routes\<close>

text \<open>\<open>uuid.uuid4()\<close> from its 16 random bytes (version and variant bits forced), and
  \<open>str\<close> of a UUID: 32 lower-case hex digits in groups 8-4-4-4-12.\<close>

definition uuid4 :: "128 word \<Rightarrow> 128 word" where
  "uuid4 rnd =
     (let i = rnd AND NOT (push_bit 48 0xc000);
          i = i OR push_bit 48 0x8000;
          i = i AND NOT (push_bit 64 0xf000);
          i = i OR push_bit 76 4
      in i)"

definition hex_digit :: "nat \<Rightarrow> nat" where
  "hex_digit d = (if d < 10 then 48 + d else 87 + d)"

definition hex32 :: "128 word \<Rightarrow> pystr" where
  "hex32 w = map (\<lambda>i. hex_digit (unat (drop_bit (4 * (31 - i)) w AND 15))) [0..<32]"

definition uuid_str :: "128 word \<Rightarrow> pystr" where
  "uuid_str w =
     (let hex = hex32 w
      in take 8 hex @ lit ''-'' @ take 4 (drop 8 hex) @ lit ''-'' @ take 4 (drop 12 hex)
         @ lit ''-'' @ take 4 (drop 16 hex) @ lit ''-'' @ drop 20 hex)"

definition new_snippet :: "128 word \<Rightarrow> pystr \<Rightarrow> pystr \<Rightarrow> json" where
  "new_snippet rnd content now =
     JObj [(lit ''id'', JStr (take 8 (uuid_str (uuid4 rnd)))),
           (lit ''content'', JStr content),
           (lit ''time'', JStr now)]"

text \<open>\<open>POST /text\<close>. \<open>data\<close> is what \<open>request.get_json()\<close> returned (\<open>JNull\<close> for \<open>None\<close>),
  \<open>rnd\<close> the random bytes \<open>uuid4\<close> draws, \<open>now\<close> the formatted current time.\<close>

definition add_text ::
  "json \<Rightarrow> 128 word \<Rightarrow> pystr \<Rightarrow> text_file \<Rightarrow> (exn + response) \<times> text_file"
where
  "add_text data rnd now tf =
     (if \<not> truthy data then (Inr (Jsonify (json_error msg_no_content) 400), tf)
      else
        case py_contains (lit ''content'') data of
          Inl e \<Rightarrow> (Inl e, tf)
        | Inr False \<Rightarrow> (Inr (Jsonify (json_error msg_no_content) 400), tf)
        | Inr True \<Rightarrow>
            (case py_getitem data (lit ''content'') of
               Inl e \<Rightarrow> (Inl e, tf)
             | Inr v \<Rightarrow>
                 (case py_strip v of
                    Inl e \<Rightarrow> (Inl e, tf)
                  | Inr content \<Rightarrow>
                      if content = [] then (Inr (Jsonify (json_error msg_content_empty) 400), tf)
                      else
                        (case load_texts tf of
                           Inl e \<Rightarrow> (Inl e, tf)
                         | Inr texts \<Rightarrow>
                             (case py_insert0 texts (new_snippet rnd content now) of
                                Inl e \<Rightarrow> (Inl e, tf)
                              | Inr texts' \<Rightarrow>
                                  (Inr (Jsonify json_success 200), save_texts texts' tf))))))"

text \<open>The comprehension \<open>[t for t in texts if t['id'] != text_id]\<close>, element by element.\<close>

fun keep_other_ids :: "json list \<Rightarrow> pystr \<Rightarrow> exn + json list" where
  "keep_other_ids [] text_id = Inr []"
| "keep_other_ids (t # ts) text_id =
     (case py_getitem t (lit ''id'') of
        Inl e \<Rightarrow> Inl e
      | Inr v \<Rightarrow>
          (case keep_other_ids ts text_id of
             Inl e \<Rightarrow> Inl e
           | Inr rest \<Rightarrow> Inr (if v \<noteq> JStr text_id then t # rest else rest)))"

text \<open>\<open>DELETE /text/<text_id>\<close>.\<close>

definition delete_text :: "pystr \<Rightarrow> text_file \<Rightarrow> (exn + response) \<times> text_file" where
  "delete_text text_id tf =
     (case load_texts tf of
        Inl e \<Rightarrow> (Inl e, tf)
      | Inr texts \<Rightarrow>
          (case py_iter texts of
             Inl e \<Rightarrow> (Inl e, tf)
           | Inr elems \<Rightarrow>
               (case keep_other_ids elems text_id of
                  Inl e \<Rightarrow> (Inl e, tf)
                | Inr texts' \<Rightarrow> (Inr (Jsonify json_success 200), save_texts (JArr texts') tf))))"

text \<open>The ids of the stored snippets, as \<open>t['id']\<close> reads them.\<close>

definition snippet_ids :: "json list \<Rightarrow> (exn + json) list" where
  "snippet_ids ts = map (\<lambda>t. py_getitem t (lit ''id'')) ts"



section \<open>Uploads: collision-free naming\<close>








lemma splitext_loop_append: "fst (splitext_loop p i d) @ snd (splitext_loop p i d) = p"
  by (induction p i d rule: splitext_loop.induct) (simp add: splitext_loop.simps)

lemma splitext_append: "fst (splitext p) @ snd (splitext p) = p"
  by (simp add: splitext_def Let_def splitext_loop_append)










section \<open>The request size limit\<close>

text \<open>
  Claim C7. The claim fixes the limit at 500 MiB, as the comment beside the constant does. The
  constant itself is \<open>5000 * 1024 * 1024\<close>, ten times that: a body one byte over 500 MiB is
  not refused, and refusal starts one byte over 5000 MiB.
\<close>

theorem max_content_length_is_5000_MiB:
  "MAX_CONTENT_LENGTH = 10 * (500 * 1024 * 1024)
   \<and> \<not> request_entity_too_large (500 * 1024 * 1024 + 1)
   \<and> \<not> request_entity_too_large (5000 * 1024 * 1024)
   \<and> request_entity_too_large (5000 * 1024 * 1024 + 1)"
  by (simp add: MAX_CONTENT_LENGTH_def request_entity_too_large_def)

section \<open>Deleting files\<close>

lemma delete_file_regular:
  "fs (os_path_join (UPLOAD_FOLDER app_dir) filename) = Some (File c) \<Longrightarrow>
   delete_file app_dir fs filename =
     (Inr (Jsonify json_success 200), fs(os_path_join (UPLOAD_FOLDER app_dir) filename := None))"
  by (simp add: delete_file_def os_path_exists_def os_remove_def)

lemma delete_file_absent:
  "fs (os_path_join (UPLOAD_FOLDER app_dir) filename) = None \<Longrightarrow>
   delete_file app_dir fs filename = (Inr (Jsonify (json_error msg_file_not_exist) 404), fs)"
  by (simp add: delete_file_def os_path_exists_def)

lemma delete_file_directory:
  "fs (os_path_join (UPLOAD_FOLDER app_dir) filename) = Some Dir \<Longrightarrow>
   delete_file app_dir fs filename = (Inl IsADirectoryError, fs)"
  by (simp add: delete_file_def os_path_exists_def os_remove_def)

text \<open>
  Claim C3. A regular file is removed with a success response and an absent name gets the
  404 response with the directory unchanged (the two lemmas above). The remaining case breaks
  the claim: a name that exists without being a regular file passes the \<open>os.path.exists\<close>
  test, and \<open>os.remove\<close> raises on it instead of a 404 response. Evaluated here on a
  subdirectory \<open>sub\<close> of the upload directory.
\<close>

theorem delete_file_raises_on_directory:
  "delete_file (lit ''/srv'') [lit ''/srv/uploads/sub'' \<mapsto> Dir] (lit ''sub'') =
     (Inl IsADirectoryError, [lit ''/srv/uploads/sub'' \<mapsto> Dir])"
proof -
  have "os_path_join (UPLOAD_FOLDER (lit ''/srv'')) (lit ''sub'') = lit ''/srv/uploads/sub''"
    by code_simp
  then show ?thesis
    by (simp add: delete_file_directory)
qed

section \<open>Adding text\<close>


lemma add_text_stores:
  assumes "data = JObj kvs" and "map_of kvs (lit ''content'') = Some (JStr s)"
    and "strip s \<noteq> []" and "load_texts tf = Inr (JArr ts)"
  shows "add_text data rnd now tf =
           (Inr (Jsonify json_success 200), Document (JArr (new_snippet rnd (strip s) now # ts)))"
proof -
  from assms(2) have "kvs \<noteq> []" by auto
  with assms show ?thesis
    by (simp add: add_text_def save_texts_def)
qed


lemma load_texts_Document: "load_texts (Document v) = Inr v"
  by (simp add: load_texts_def)






lemma strip_A: "strip (lit ''A'') = lit ''A''" and strip_B: "strip (lit ''B'') = lit ''B''"
  by (simp_all add: strip_def lit_def isspace_def)

lemma lit_A_B_nonempty: "lit ''A'' \<noteq> []" "lit ''B'' \<noteq> []"
  by (simp_all add: lit_def)

lemma length_hex32: "length (hex32 w) = 32"
  by (simp add: hex32_def)

lemma take8_uuid_str: "take 8 (uuid_str w) = take 8 (hex32 w)"
  by (simp add: uuid_str_def Let_def length_hex32)

lemma take8_hex32:
  "take 8 (hex32 w) = map (\<lambda>i. hex_digit (unat (drop_bit (4 * (31 - i)) w AND 15))) [0..<8]"
  by (simp add: hex32_def take_map)

lemma hex_digit_range: "d < 16 \<Longrightarrow> hex_digit d \<in> set (lit ''0123456789abcdef'')"
proof -
  assume "d < 16"
  then have "d \<in> {0, 1, 2, 3, 4, 5, 6, 7, 8, 9, 10, 11, 12, 13, 14, 15}"
    by simp arith
  then show ?thesis
    by (auto simp: hex_digit_def lit_def)
qed

lemma nibble_bound: "unat ((w :: 128 word) AND 15) < 16"
proof -
  have "w AND 15 \<le> 15"
    by (rule word_and_le1)
  then have "unat (w AND 15) \<le> unat (15 :: 128 word)"
    by (simp add: word_le_nat_alt)
  then show ?thesis
    by simp
qed

lemma set_hex32: "set (hex32 w) \<subseteq> set (lit ''0123456789abcdef'')"
  unfolding hex32_def using hex_digit_range [OF nibble_bound] by auto

lemma snippet_id_length: "length (take 8 (uuid_str w)) = 8"
  by (simp add: take8_uuid_str length_hex32)

lemma snippet_id_hex: "set (take 8 (uuid_str w)) \<subseteq> set (lit ''0123456789abcdef'')"
  unfolding take8_uuid_str using set_hex32 [of w] set_take_subset [of 8 "hex32 w"] by blast

lemma snippet_ids_new:
  "snippet_ids (new_snippet rnd content now # ts) =
     Inr (JStr (take 8 (uuid_str (uuid4 rnd)))) # snippet_ids ts"
  by (simp add: snippet_ids_def new_snippet_def lit_def)

lemma id_of_zero: "take 8 (uuid_str (uuid4 0)) = lit ''00000000''"
  by (simp add: take8_uuid_str take8_hex32 uuid4_def hex_digit_def lit_def Let_def upt_rec drop_bit_eq_div)

lemma id_of_one: "take 8 (uuid_str (uuid4 1)) = lit ''00000000''"
  by (simp add: take8_uuid_str take8_hex32 uuid4_def hex_digit_def lit_def Let_def upt_rec drop_bit_eq_div)

lemma id_example: "take 8 (uuid_str (uuid4 0x0123456789abcdef0123456789abcdef)) = lit ''01234567''"
  by (simp add: take8_uuid_str take8_hex32 uuid4_def hex_digit_def lit_def Let_def upt_rec drop_bit_eq_div)

text \<open>
  Claim C10. When the body is an object whose \<open>content\<close> is present but not a string, the
  \<open>.strip()\<close> call raises \<open>AttributeError\<close> and nothing is stored. A 400 response is
  either the "no content" one, which needs an empty (falsy) body or a body in which
  \<open>'content'\<close> is not found, or the "content is empty" one, which needs a string content
  that is empty once trimmed.
\<close>

theorem add_text_non_string_content:
  "(data = JObj kvs \<and> map_of kvs (lit ''content'') = Some v \<and> (\<forall>s. v \<noteq> JStr s)
      \<longrightarrow> add_text data rnd now tf = (Inl AttributeError, tf))
   \<and> (add_text data rnd now tf = (Inr (Jsonify body 400), tf')
      \<longrightarrow> (body = json_error msg_no_content
            \<and> (\<not> truthy data \<or> py_contains (lit ''content'') data = Inr False))
          \<or> (body = json_error msg_content_empty
            \<and> (\<exists>kvs s. data = JObj kvs \<and> map_of kvs (lit ''content'') = Some (JStr s)
                  \<and> strip s = [])))"
proof (intro conjI impI)
  assume a: "data = JObj kvs \<and> map_of kvs (lit ''content'') = Some v \<and> (\<forall>s. v \<noteq> JStr s)"
  then have "kvs \<noteq> []" by auto
  moreover from a have "py_strip v = Inl AttributeError"
    by (cases v) simp_all
  ultimately show "add_text data rnd now tf = (Inl AttributeError, tf)"
    using a by (simp add: add_text_def)
next
  assume r: "add_text data rnd now tf = (Inr (Jsonify body 400), tf')"
  show "(body = json_error msg_no_content
            \<and> (\<not> truthy data \<or> py_contains (lit ''content'') data = Inr False))
          \<or> (body = json_error msg_content_empty
            \<and> (\<exists>kvs s. data = JObj kvs \<and> map_of kvs (lit ''content'') = Some (JStr s)
                  \<and> strip s = []))"
  proof (cases data)
    case (JObj kvs)
    with r show ?thesis
      by (cases "map_of kvs (lit ''content'')")
        (auto simp: add_text_def json_success_def split: if_splits sum.splits option.splits elim!: py_strip.elims)
  qed (use r in \<open>auto simp: add_text_def split: if_splits sum.splits bool.splits\<close>)
qed

theorem add_text_non_string_content_witness:
  "add_text (JObj [(lit ''content'', JInt 5)]) 0 [] Missing = (Inl AttributeError, Missing)
   \<and> add_text (JObj [(lit ''content'', JNull)]) 0 [] Missing = (Inl AttributeError, Missing)
   \<and> add_text (JObj [(lit ''note'', JInt 5)]) 0 [] Missing =
        (Inr (Jsonify (json_error msg_no_content) 400), Missing)
   \<and> py_contains (lit ''content'') (JObj [(lit ''note'', JInt 5)]) = Inr False"
proof -
  have "map_of [(lit ''content'', JInt 5)] (lit ''content'') = Some (JInt 5)"
    and "map_of [(lit ''content'', JNull)] (lit ''content'') = Some JNull"
    by simp_all
  then have "add_text (JObj [(lit ''content'', JInt 5)]) 0 [] Missing = (Inl AttributeError, Missing)"
    and "add_text (JObj [(lit ''content'', JNull)]) 0 [] Missing = (Inl AttributeError, Missing)"
    using add_text_non_string_content [of "JObj [(lit ''content'', JInt 5)]" "[(lit ''content'', JInt 5)]" "JInt 5" 0 "[]" Missing]
      add_text_non_string_content [of "JObj [(lit ''content'', JNull)]" "[(lit ''content'', JNull)]" JNull 0 "[]" Missing]
    by simp_all
  moreover have r: "add_text (JObj [(lit ''note'', JInt 5)]) 0 [] Missing =
        (Inr (Jsonify (json_error msg_no_content) 400), Missing)"
    by (simp add: add_text_def lit_def)
  moreover have "py_contains (lit ''content'') (JObj [(lit ''note'', JInt 5)]) = Inr False"
    using add_text_non_string_content [of "JObj [(lit ''note'', JInt 5)]" _ _ 0 "[]" Missing
        "json_error msg_no_content" Missing] r
    by (auto simp: lit_def)
  ultimately show ?thesis
    by blast
qed






section \<open>Snippet ids\<close>

text \<open>
  Claim C6, as stated, fails on uniqueness: two random draws that agree on their first
  32 bits give two different snippets the same id.
\<close>

theorem snippet_id_collision:
  "load_texts (snd (add_text (JObj [(lit ''content'', JStr (lit ''B''))]) 1 []
      (snd (add_text (JObj [(lit ''content'', JStr (lit ''A''))]) 0 [] Missing)))) =
     Inr (JArr [JObj [(lit ''id'', JStr (lit ''00000000'')), (lit ''content'', JStr (lit ''B'')),
                      (lit ''time'', JStr [])],
                JObj [(lit ''id'', JStr (lit ''00000000'')), (lit ''content'', JStr (lit ''A'')),
                      (lit ''time'', JStr [])]])"
proof -
  have a: "add_text (JObj [(lit ''content'', JStr (lit ''A''))]) 0 [] Missing =
      (Inr (Jsonify json_success 200), Document (JArr [new_snippet 0 (lit ''A'') []]))"
    using add_text_stores [of _ "[(lit ''content'', JStr (lit ''A''))]" "lit ''A''" Missing "[]" 0 "[]"]
    by (simp add: strip_A load_texts_def lit_A_B_nonempty)
  have b: "add_text (JObj [(lit ''content'', JStr (lit ''B''))]) 1 []
        (Document (JArr [new_snippet 0 (lit ''A'') []])) =
      (Inr (Jsonify json_success 200),
       Document (JArr [new_snippet 1 (lit ''B'') [], new_snippet 0 (lit ''A'') []]))"
    using add_text_stores [of _ "[(lit ''content'', JStr (lit ''B''))]" "lit ''B''"
        "Document (JArr [new_snippet 0 (lit ''A'') []])" "[new_snippet 0 (lit ''A'') []]" 1 "[]"]
    by (simp add: strip_B load_texts_def lit_A_B_nonempty)
  show ?thesis
    unfolding a snd_conv b load_texts_Document
    by (simp add: new_snippet_def id_of_zero id_of_one)
qed

text \<open>
  Claim C6, amended. Every id is 8 characters long, all of them lower-case hexadecimal
  digits (the start of the string form of the random UUID). The ids of the stored list stay
  pairwise different exactly when they were so before and the new id is not among them;
  nothing in \<open>add_text\<close> checks that.
\<close>

theorem snippet_id_eight_hex_chars:
  "length (take 8 (uuid_str (uuid4 rnd))) = 8
   \<and> set (take 8 (uuid_str (uuid4 rnd))) \<subseteq> set (lit ''0123456789abcdef'')
   \<and> (data = JObj kvs \<and> map_of kvs (lit ''content'') = Some (JStr s) \<and> strip s \<noteq> []
        \<and> load_texts tf = Inr (JArr ts)
      \<longrightarrow> load_texts (snd (add_text data rnd now tf)) =
            Inr (JArr (new_snippet rnd (strip s) now # ts))
          \<and> snippet_ids (new_snippet rnd (strip s) now # ts) =
              Inr (JStr (take 8 (uuid_str (uuid4 rnd)))) # snippet_ids ts
          \<and> (distinct (snippet_ids (new_snippet rnd (strip s) now # ts)) \<longleftrightarrow>
               distinct (snippet_ids ts)
               \<and> Inr (JStr (take 8 (uuid_str (uuid4 rnd)))) \<notin> set (snippet_ids ts)))"
proof (intro conjI impI)
  show "length (take 8 (uuid_str (uuid4 rnd))) = 8"
    by (rule snippet_id_length)
  show "set (take 8 (uuid_str (uuid4 rnd))) \<subseteq> set (lit ''0123456789abcdef'')"
    by (rule snippet_id_hex)
next
  assume "data = JObj kvs \<and> map_of kvs (lit ''content'') = Some (JStr s) \<and> strip s \<noteq> []
        \<and> load_texts tf = Inr (JArr ts)"
  then show "load_texts (snd (add_text data rnd now tf)) =
      Inr (JArr (new_snippet rnd (strip s) now # ts))"
    by (simp add: add_text_stores load_texts_Document)
next
  show "snippet_ids (new_snippet rnd (strip s) now # ts) =
      Inr (JStr (take 8 (uuid_str (uuid4 rnd)))) # snippet_ids ts"
    by (rule snippet_ids_new)
  then show "distinct (snippet_ids (new_snippet rnd (strip s) now # ts)) \<longleftrightarrow>
      distinct (snippet_ids ts) \<and> Inr (JStr (take 8 (uuid_str (uuid4 rnd)))) \<notin> set (snippet_ids ts)"
    by auto
qed

theorem snippet_id_eight_hex_chars_witness:
  "load_texts (snd (add_text (JObj [(lit ''content'', JStr (lit ''B''))])
        0x0123456789abcdef0123456789abcdef [] (Document (JArr [new_snippet 0 (lit ''A'') []])))) =
     Inr (JArr [new_snippet 0x0123456789abcdef0123456789abcdef (lit ''B'') [], new_snippet 0 (lit ''A'') []])
   \<and> snippet_ids [new_snippet 0x0123456789abcdef0123456789abcdef (lit ''B'') [], new_snippet 0 (lit ''A'') []] =
       [Inr (JStr (lit ''01234567'')), Inr (JStr (lit ''00000000''))]
   \<and> distinct (snippet_ids [new_snippet 0x0123456789abcdef0123456789abcdef (lit ''B'') [],
         new_snippet 0 (lit ''A'') []])"
proof -
  have ids: "snippet_ids [new_snippet 0 (lit ''A'') []] = [Inr (JStr (lit ''00000000''))]"
    by (simp add: snippet_ids_new id_of_zero) (simp add: snippet_ids_def)
  have "JObj [(lit ''content'', JStr (lit ''B''))] = JObj [(lit ''content'', JStr (lit ''B''))]
      \<and> map_of [(lit ''content'', JStr (lit ''B''))] (lit ''content'') = Some (JStr (lit ''B''))
      \<and> strip (lit ''B'') \<noteq> []
      \<and> load_texts (Document (JArr [new_snippet 0 (lit ''A'') []])) = Inr (JArr [new_snippet 0 (lit ''A'') []])"
    by (simp add: strip_B load_texts_Document lit_A_B_nonempty)
  with snippet_id_eight_hex_chars [of "0x0123456789abcdef0123456789abcdef"
      "JObj [(lit ''content'', JStr (lit ''B''))]" "[(lit ''content'', JStr (lit ''B''))]" "lit ''B''"
      "Document (JArr [new_snippet 0 (lit ''A'') []])" "[new_snippet 0 (lit ''A'') []]" "[]"]
  show ?thesis
    by (simp add: strip_B ids id_example) (simp add: lit_def)
qed

section \<open>Removing text and rewriting the store\<close>

lemma keep_other_ids_all:
  "\<forall>t\<in>set ts. \<exists>kvs v. t = JObj kvs \<and> map_of kvs (lit ''id'') = Some v \<and> v \<noteq> JStr text_id \<Longrightarrow>
   keep_other_ids ts text_id = Inr ts"
  by (induction ts) auto

text \<open>
  Claim C9. When the stored list holds snippet objects none of whose id is \<open>text_id\<close>,
  \<open>delete_text\<close> answers with the success response and the stored list is the same as
  before.
\<close>

theorem delete_text_unknown_id:
  assumes "load_texts tf = Inr (JArr ts)"
    and "\<forall>t\<in>set ts. \<exists>kvs v. t = JObj kvs \<and> map_of kvs (lit ''id'') = Some v \<and> v \<noteq> JStr text_id"
  shows "delete_text text_id tf = (Inr (Jsonify json_success 200), Document (JArr ts))
         \<and> load_texts (snd (delete_text text_id tf)) = load_texts tf"
  using assms by (simp add: delete_text_def keep_other_ids_all save_texts_def load_texts_Document)

theorem delete_text_unknown_id_witness:
  "delete_text (lit ''ffffffff'') (Document (JArr [new_snippet 0 (lit ''A'') []])) =
     (Inr (Jsonify json_success 200), Document (JArr [new_snippet 0 (lit ''A'') []]))
   \<and> delete_text (lit ''ffffffff'') Missing = (Inr (Jsonify json_success 200), Document (JArr []))"
proof (rule conjI)
  have "load_texts (Document (JArr [new_snippet 0 (lit ''A'') []])) = Inr (JArr [new_snippet 0 (lit ''A'') []])"
    by (rule load_texts_Document)
  moreover have "\<forall>t\<in>set [new_snippet 0 (lit ''A'') []].
      \<exists>kvs v. t = JObj kvs \<and> map_of kvs (lit ''id'') = Some v \<and> v \<noteq> JStr (lit ''ffffffff'')"
    by (simp add: new_snippet_def id_of_zero) (simp add: lit_def)
  ultimately show "delete_text (lit ''ffffffff'') (Document (JArr [new_snippet 0 (lit ''A'') []])) =
     (Inr (Jsonify json_success 200), Document (JArr [new_snippet 0 (lit ''A'') []]))"
    using delete_text_unknown_id [of "Document (JArr [new_snippet 0 (lit ''A'') []])"
        "[new_snippet 0 (lit ''A'') []]" "lit ''ffffffff''"]
    by blast
next
  have "load_texts Missing = Inr (JArr [])"
    by (simp add: load_texts_def)
  then show "delete_text (lit ''ffffffff'') Missing = (Inr (Jsonify json_success 200), Document (JArr []))"
    using delete_text_unknown_id [of Missing "[]" "lit ''ffffffff''"] by simp
qed



section \<open>Downloads stay inside the upload directory\<close>

lemma split_sep_nonempty: "split_sep p \<noteq> []"
  by (induction p) (auto split: list.splits)























end
